theory Spec2Isabelle
  imports Complex_Main "HOL-Library.Word"
begin

unbundle bit_operations_syntax

section \<open>The IPC reader: shared-memory snapshot and detection overlay\<close>

text \<open>
  A shallow embedding of \<^verbatim>\<open>objectReaderSHM.py\<close>. The script opens the POSIX
  shared-memory object \<^verbatim>\<open>/dev/shm/ipc_yolov4_shm\<close>, copies \<^verbatim>\<open>sizeof(SharedData)\<close>
  bytes out of it, reads them through two \<^verbatim>\<open>ctypes\<close> structures, and draws one box and
  one label per detection on an image with OpenCV.

  Everything outside the script is explicit: the file system, standard output and the
  order of the I/O calls are fields of a \<open>world\<close> record that every function takes and
  returns; OpenCV is a record of functions \<open>cv2\<close> taken as a parameter; an exception is
  the \<open>Inl\<close> branch of a sum.
\<close>

subsection \<open>Bytes and C integers\<close>

type_synonym byte = "8 word"
type_synonym c_int = "32 word"
type_synonym c_float = "32 word"
type_synonym path = string

text \<open>
  \<^verbatim>\<open>ctypes.Structure\<close> uses the byte order of the platform; the platforms that expose
  \<^verbatim>\<open>/dev/shm\<close> to this script (x86-64, AArch64 Linux) are little-endian: the first
  byte is the least significant one.
\<close>

fun word_of_le :: "byte list \<Rightarrow> c_int" where
  "word_of_le [] = 0"
| "word_of_le (b # bs) = ucast b OR push_bit 8 (word_of_le bs)"

definition field_at :: "byte list \<Rightarrow> nat \<Rightarrow> c_int" where
  "field_at buf off = word_of_le (take 4 (drop off buf))"

subsection \<open>Python string formatting\<close>

definition digit_char :: "nat \<Rightarrow> char" where
  "digit_char d = ''0123456789'' ! (d mod 10)"

fun str_nat :: "nat \<Rightarrow> string" where
  "str_nat n = (if n < 10 then [digit_char n] else str_nat (n div 10) @ [digit_char (n mod 10)])"

declare str_nat.simps [simp del]

text \<open>\<^verbatim>\<open>str(n)\<close> and \<^verbatim>\<open>f"{n}"\<close> for a Python integer.\<close>

definition str_int :: "int \<Rightarrow> string" where
  "str_int n = (if n < 0 then CHR ''-'' # str_nat (nat (- n)) else str_nat (nat n))"

text \<open>
  \<open>round_half_even n k\<close> is \<open>n * 2 ^ k\<close> rounded to the nearest integer, ties to even:
  the rounding of Python's float formatting, which is exact on the binary value.
\<close>

definition round_half_even :: "nat \<Rightarrow> int \<Rightarrow> nat" where
  "round_half_even n k =
     (if 0 \<le> k then n * 2 ^ nat k
      else
        let d = 2 ^ nat (- k); q = n div d; r = n mod d in
        if 2 * r < d then q
        else if d < 2 * r then q + 1
        else if even q then q else q + 1)"

text \<open>
  \<^verbatim>\<open>f"{conf:.2f}"\<close> for the float read from a \<^verbatim>\<open>c_float\<close>. The float has the value
  \<open>(-1)^s * m * 2^e\<close> of its single-precision pattern (the conversion to a Python float
  is exact); it is printed with two decimals, correctly rounded.
\<close>

definition fmt_2f :: "c_float \<Rightarrow> string" where
  "fmt_2f f =
     (let neg = bit f 31;
          ex = unat (drop_bit 23 f AND 0xFF);
          fr = unat (f AND 0x7FFFFF)
      in
      if ex = 255 then
        (if fr = 0 then (if neg then ''-inf'' else ''inf'') else ''nan'')
      else
        let m = (if ex = 0 then fr else fr + 2 ^ 23);
            e = (if ex = 0 then - 149 else int ex - 150);
            hundredths = round_half_even (m * 100) e
        in
        (if neg then ''-'' else []) @ str_nat (hundredths div 100) @ ''.''
          @ [digit_char (hundredths mod 100 div 10), digit_char (hundredths mod 10)])"

subsection \<open>The ctypes structures\<close>

definition SHM_NAME :: string where
  "SHM_NAME = ''/ipc_yolov4_shm''"

definition MAX_BOXES :: nat where
  "MAX_BOXES = 10"

text \<open>
  \<^verbatim>\<open>class Detection(Structure)\<close>: six 4-byte fields, no padding, 24 bytes. The
  \<^verbatim>\<open>c_float\<close> field is kept as its IEEE-754 single-precision bit pattern.
\<close>

record Detection =
  c_class_id :: c_int
  c_confidence :: c_float
  c_x :: c_int
  c_y :: c_int
  c_w :: c_int
  c_h :: c_int

text \<open>\<^verbatim>\<open>class SharedData(Structure)\<close>: \<open>count\<close>, then \<open>Detection * MAX_BOXES\<close>.\<close>

record SharedData =
  count :: c_int
  det :: "Detection list"

definition sizeof_Detection :: nat where
  "sizeof_Detection = 24"

definition sizeof_SharedData :: nat where
  "sizeof_SharedData = 4 + MAX_BOXES * sizeof_Detection"

definition Detection_at :: "byte list \<Rightarrow> nat \<Rightarrow> Detection" where
  "Detection_at buf off =
     \<lparr> c_class_id = field_at buf off,
       c_confidence = field_at buf (off + 4),
       c_x = field_at buf (off + 8),
       c_y = field_at buf (off + 12),
       c_w = field_at buf (off + 16),
       c_h = field_at buf (off + 20) \<rparr>"

subsection \<open>Exceptions\<close>

datatype exn =
    PermissionError string
  | FileNotFoundError string
  | ValueError string
  | IndexError string
  | CvError string

fun exn_str :: "exn \<Rightarrow> string" where
  "exn_str (PermissionError m) = m"
| "exn_str (FileNotFoundError m) = m"
| "exn_str (ValueError m) = m"
| "exn_str (IndexError m) = m"
| "exn_str (CvError m) = m"

text \<open>
  \<^verbatim>\<open>SharedData.from_buffer_copy(buf)\<close>: a copy of the first \<^verbatim>\<open>sizeof(SharedData)\<close>
  bytes, read as the structure; \<^verbatim>\<open>ValueError\<close> on a shorter buffer (the mapping below
  never gives one: it has exactly that many bytes).
\<close>

definition from_buffer_copy :: "byte list \<Rightarrow> exn + SharedData" where
  "from_buffer_copy buf =
     (if length buf < sizeof_SharedData
      then Inl (ValueError (''Buffer size too small ('' @ str_nat (length buf)
                  @ '' instead of at least '' @ str_nat sizeof_SharedData @ '' bytes)''))
      else Inr \<lparr> count = field_at buf 0,
                 det = map (\<lambda>i. Detection_at buf (4 + i * sizeof_Detection)) [0..<MAX_BOXES] \<rparr>)"

text \<open>
  \<^verbatim>\<open>shared.det[i]\<close> for \<open>i \<ge> 0\<close>: a ctypes array checks the index against its length
  and raises \<^verbatim>\<open>IndexError("invalid index")\<close>.
\<close>

definition det_item :: "SharedData \<Rightarrow> nat \<Rightarrow> exn + Detection" where
  "det_item shared i =
     (if i < MAX_BOXES then Inr (det shared ! i) else Inl (IndexError ''invalid index''))"

subsection \<open>The world\<close>

datatype font = FONT_HERSHEY_SIMPLEX

type_synonym point = "int \<times> int"
type_synonym color = "int \<times> int \<times> int"

text \<open>The two drawing calls, with their arguments in the order of the call.\<close>

datatype cv_call =
    Rectangle point point color int
  | PutText string point font rat color int

record file_obj =
  readable :: bool
  content :: "byte list"

datatype io_event =
    PathExists path
  | OsOpen path
  | MmapMap nat
  | MmapClose
  | OsClose
  | ImRead path
  | Draw cv_call
  | ImWrite path

record world =
  files :: "path \<rightharpoonup> file_obj"
  stdout :: "string list"
  io_log :: "io_event list"

definition print :: "string \<Rightarrow> world \<Rightarrow> world" where
  "print s wd = wd\<lparr>stdout := stdout wd @ [s]\<rparr>"

definition io :: "io_event \<Rightarrow> world \<Rightarrow> world" where
  "io ev wd = wd\<lparr>io_log := io_log wd @ [ev]\<rparr>"

definition path_exists :: "path \<Rightarrow> world \<Rightarrow> bool \<times> world" where
  "path_exists p wd = (files wd p \<noteq> None, io (PathExists p) wd)"

text \<open>The file name as the message of an \<^verbatim>\<open>OSError\<close> shows it: between single quotes.\<close>

definition quoted :: "string \<Rightarrow> string" where
  "quoted p = [CHR 0x27] @ p @ [CHR 0x27]"

definition os_open :: "path \<Rightarrow> world \<Rightarrow> (exn + file_obj) \<times> world" where
  "os_open p wd =
     (case files wd p of
        None \<Rightarrow> (Inl (FileNotFoundError (''[Errno 2] No such file or directory: '' @ quoted p)),
                 io (OsOpen p) wd)
      | Some f \<Rightarrow>
          if readable f then (Inr f, io (OsOpen p) wd)
          else (Inl (PermissionError (''[Errno 13] Permission denied: '' @ quoted p)),
                io (OsOpen p) wd))"

text \<open>
  \<^verbatim>\<open>mmap.mmap(fd, n, MAP_SHARED, PROT_READ)\<close> followed by \<^verbatim>\<open>shm[:]\<close>: the first
  \<open>n\<close> bytes of the file; \<^verbatim>\<open>ValueError\<close> when the file is shorter than \<open>n\<close>.
\<close>

definition mmap_read :: "file_obj \<Rightarrow> nat \<Rightarrow> world \<Rightarrow> (exn + byte list) \<times> world" where
  "mmap_read f n wd =
     (if length (content f) < n
      then (Inl (ValueError ''mmap length is greater than file size''), io (MmapMap n) wd)
      else (Inr (take n (content f)), io (MmapMap n) wd))"

subsection \<open>read_shared_memory\<close>

text \<open>
  A signalling NaN: exponent all ones, fraction not zero, top bit of the fraction clear.
\<close>

definition is_signalling_nan :: "c_float \<Rightarrow> bool" where
  "is_signalling_nan f \<longleftrightarrow>
     drop_bit 23 f AND 0xFF = 0xFF \<and> f AND 0x7FFFFF \<noteq> 0 \<and> \<not> bit f 22"

text \<open>
  Reading a \<^verbatim>\<open>c_float\<close> field gives a Python float: the single-precision value widened
  to double precision. The widening keeps every value; of a signalling NaN it gives the
  quiet NaN with the same payload. The float is kept as the single-precision pattern it
  is the widening of.
\<close>

definition float_of_c_float :: "c_float \<Rightarrow> c_float" where
  "float_of_c_float f = (if is_signalling_nan f then f OR 0x400000 else f)"

text \<open>
  The dictionary appended for each detection. The integer fields are Python integers
  (the signed reading of the \<^verbatim>\<open>c_int\<close>); the confidence is the Python float.
\<close>

record detection =
  class_id :: int
  confidence :: c_float
  box_x :: int
  box_y :: int
  box_w :: int
  box_h :: int

definition detection_dict :: "Detection \<Rightarrow> detection" where
  "detection_dict d =
     \<lparr> class_id = sint (c_class_id d),
       confidence = float_of_c_float (c_confidence d),
       box_x = sint (c_x d),
       box_y = sint (c_y d),
       box_w = sint (c_w d),
       box_h = sint (c_h d) \<rparr>"

text \<open>\<^verbatim>\<open>range(n)\<close> for a Python integer: empty when \<open>n \<le> 0\<close>.\<close>

definition range_py :: "int \<Rightarrow> nat list" where
  "range_py n = [0..<nat n]"

text \<open>The \<^verbatim>\<open>for i in range(shared.count)\<close> loop; \<open>acc\<close> is \<^verbatim>\<open>detections\<close>.\<close>

fun read_loop :: "SharedData \<Rightarrow> nat list \<Rightarrow> detection list \<Rightarrow> exn + detection list" where
  "read_loop shared [] acc = Inr acc"
| "read_loop shared (i # is) acc =
     (case det_item shared i of
        Inl e \<Rightarrow> Inl e
      | Inr d \<Rightarrow> read_loop shared is (acc @ [detection_dict d]))"

definition shm_path :: path where
  "shm_path = ''/dev/shm'' @ SHM_NAME"

text \<open>The body of the \<^verbatim>\<open>try\<close> after the existence check.\<close>

definition read_try :: "world \<Rightarrow> (exn + detection list) \<times> world" where
  "read_try wd =
     (case os_open shm_path wd of
        (Inl e, wd1) \<Rightarrow> (Inl e, wd1)
      | (Inr fd, wd1) \<Rightarrow>
          (case mmap_read fd sizeof_SharedData wd1 of
             (Inl e, wd2) \<Rightarrow> (Inl e, wd2)
           | (Inr buf, wd2) \<Rightarrow>
               (case from_buffer_copy buf of
                  Inl e \<Rightarrow> (Inl e, wd2)
                | Inr shared \<Rightarrow>
                    (case read_loop shared (range_py (sint (count shared))) [] of
                       Inl e \<Rightarrow> (Inl e, wd2)
                     | Inr detections \<Rightarrow> (Inr detections, io OsClose (io MmapClose wd2))))))"

definition read_shared_memory :: "world \<Rightarrow> detection list option \<times> world" where
  "read_shared_memory wd =
     (case path_exists shm_path wd of
        (False, wd1) \<Rightarrow>
          (None, print (''Error: Shared memory not found at '' @ shm_path) wd1)
      | (True, wd1) \<Rightarrow>
          (case read_try wd1 of
             (Inl e, wd2) \<Rightarrow> (None, print (''Error reading shared memory: '' @ exn_str e) wd2)
           | (Inr detections, wd2) \<Rightarrow> (Some detections, wd2)))"

subsection \<open>os.path.splitext\<close>

text \<open>\<^verbatim>\<open>p.rfind(c)\<close> for a one-character \<open>c\<close>: the highest index of \<open>c\<close>, or \<open>-1\<close>.\<close>

fun rfind :: "char \<Rightarrow> string \<Rightarrow> int" where
  "rfind c [] = - 1"
| "rfind c (a # s) =
     (let r = rfind c s in if 0 \<le> r then r + 1 else if a = c then 0 else - 1)"

text \<open>
  The loop of \<^verbatim>\<open>genericpath._splitext\<close> that skips the leading dots of the file name:
  \<open>True\<close> when it finds a character other than a dot before \<open>dotIndex\<close>.
\<close>

function skip_dots :: "string \<Rightarrow> nat \<Rightarrow> nat \<Rightarrow> bool" where
  "skip_dots p filenameIndex dotIndex =
     (if filenameIndex < dotIndex then
        (if p ! filenameIndex \<noteq> CHR ''.'' then True
         else skip_dots p (filenameIndex + 1) dotIndex)
      else False)"
  by pat_completeness auto
termination
  by (relation "measure (\<lambda>(p, i, d). d - i)") auto

declare skip_dots.simps [simp del]

text \<open>
  \<^verbatim>\<open>os.path.splitext\<close> of the standard library (POSIX): the extension starts at the last
  dot of the last path component, unless that component has only dots before it.
\<close>

definition splitext :: "path \<Rightarrow> string \<times> string" where
  "splitext p =
     (let sepIndex = rfind (CHR ''/'') p;
          dotIndex = rfind (CHR ''.'') p
      in
      if sepIndex < dotIndex \<and> skip_dots p (nat (sepIndex + 1)) (nat dotIndex)
      then (take (nat dotIndex) p, drop (nat dotIndex) p)
      else (p, []))"

subsection \<open>OpenCV\<close>

text \<open>
  The library: \<open>imread\<close> gives \<open>None\<close> for a file it cannot read or decode; a drawing
  call returns the image drawn on; \<open>imwrite\<close> gives the bytes it wrote to the path, or
  \<open>None\<close> when it returns \<^verbatim>\<open>False\<close> and writes nothing. Each of them may raise.
\<close>

record 'img cv2 =
  imread :: "(path \<rightharpoonup> file_obj) \<Rightarrow> path \<Rightarrow> exn + 'img option"
  draw :: "cv_call \<Rightarrow> 'img \<Rightarrow> exn + 'img"
  imwrite :: "path \<Rightarrow> 'img \<Rightarrow> exn + byte list option"

definition cv_imread :: "'img cv2 \<Rightarrow> path \<Rightarrow> world \<Rightarrow> (exn + 'img option) \<times> world" where
  "cv_imread cv p wd = (imread cv (files wd) p, io (ImRead p) wd)"

definition cv_draw :: "'img cv2 \<Rightarrow> cv_call \<Rightarrow> 'img \<Rightarrow> world \<Rightarrow> (exn + 'img) \<times> world" where
  "cv_draw cv c img wd = (draw cv c img, io (Draw c) wd)"

definition cv_imwrite :: "'img cv2 \<Rightarrow> path \<Rightarrow> 'img \<Rightarrow> world \<Rightarrow> (exn + bool) \<times> world" where
  "cv_imwrite cv p img wd =
     (case imwrite cv p img of
        Inl e \<Rightarrow> (Inl e, io (ImWrite p) wd)
      | Inr None \<Rightarrow> (Inr False, io (ImWrite p) wd)
      | Inr (Some bs) \<Rightarrow>
          (Inr True,
           io (ImWrite p) (wd\<lparr>files := (files wd)(p \<mapsto> \<lparr>readable = True, content = bs\<rparr>)\<rparr>)))"

subsection \<open>render_detections\<close>

text \<open>The output path when the caller gives none.\<close>

definition default_output_path :: "path \<Rightarrow> path" where
  "default_output_path image_path =
     (case splitext image_path of (base, ext) \<Rightarrow> base @ ''_detected'' @ ext)"

definition green :: color where
  "green = (0, 255, 0)"

definition label_of :: "detection \<Rightarrow> string" where
  "label_of d = ''ID:'' @ str_int (class_id d) @ '' '' @ fmt_2f (confidence d)"

text \<open>The \<^verbatim>\<open>for i, det in enumerate(detections)\<close> loop; the image is drawn on in place.\<close>

fun draw_loop ::
  "'img cv2 \<Rightarrow> detection list \<Rightarrow> 'img \<Rightarrow> world \<Rightarrow> (exn + 'img) \<times> world" where
  "draw_loop cv [] img wd = (Inr img, wd)"
| "draw_loop cv (d # ds) img wd =
     (case cv_draw cv
             (Rectangle (box_x d, box_y d) (box_x d + box_w d, box_y d + box_h d) green 2)
             img wd of
        (Inl e, wd1) \<Rightarrow> (Inl e, wd1)
      | (Inr img1, wd1) \<Rightarrow>
          (case cv_draw cv
                  (PutText (label_of d) (box_x d, max 10 (box_y d - 5))
                     FONT_HERSHEY_SIMPLEX (6 / 10) green 2)
                  img1 wd1 of
             (Inl e, wd2) \<Rightarrow> (Inl e, wd2)
           | (Inr img2, wd2) \<Rightarrow> draw_loop cv ds img2 wd2))"

text \<open>The body of the \<^verbatim>\<open>try\<close>: \<open>Inl\<close> is an exception on its way to the handler.\<close>

definition render_try ::
  "'img cv2 \<Rightarrow> path \<Rightarrow> detection list \<Rightarrow> path \<Rightarrow> world \<Rightarrow> (exn + path option) \<times> world" where
  "render_try cv image_path detections output_path wd =
     (case cv_imread cv image_path wd of
        (Inl e, wd1) \<Rightarrow> (Inl e, wd1)
      | (Inr None, wd1) \<Rightarrow> (Inr None, print (''Failed to load image: '' @ image_path) wd1)
      | (Inr (Some img), wd1) \<Rightarrow>
          (case draw_loop cv detections img
                  (print (''Rendering '' @ str_nat (length detections) @ '' detection(s)...'') wd1) of
             (Inl e, wd2) \<Rightarrow> (Inl e, wd2)
           | (Inr img', wd2) \<Rightarrow>
               (case cv_imwrite cv output_path img' wd2 of
                  (Inl e, wd3) \<Rightarrow> (Inl e, wd3)
                | (Inr written, wd3) \<Rightarrow>
                    (Inr (Some output_path), print (''Saved to '' @ output_path) wd3))))"

definition render_detections ::
  "'img cv2 \<Rightarrow> path \<Rightarrow> detection list \<Rightarrow> path option \<Rightarrow> world \<Rightarrow> path option \<times> world" where
  "render_detections cv image_path detections output_path wd =
     (let output_path' =
            (case output_path of None \<Rightarrow> default_output_path image_path | Some p \<Rightarrow> p)
      in
      case render_try cv image_path detections output_path' wd of
        (Inl e, wd1) \<Rightarrow> (None, print (''Error rendering: '' @ exn_str e) wd1)
      | (Inr r, wd1) \<Rightarrow> (r, wd1))"

subsection \<open>main\<close>

definition detection_line :: "nat \<Rightarrow> detection \<Rightarrow> string" where
  "detection_line i d =
     ''  ['' @ str_nat i @ ''] class_id='' @ str_int (class_id d)
       @ '' conf='' @ fmt_2f (confidence d)
       @ '' box=('' @ str_int (box_x d) @ '','' @ str_int (box_y d) @ '',''
       @ str_int (box_w d) @ '','' @ str_int (box_h d) @ '')''"

fun print_detections :: "nat \<Rightarrow> detection list \<Rightarrow> world \<Rightarrow> world" where
  "print_detections i [] wd = wd"
| "print_detections i (d # ds) wd = print_detections (i + 1) ds (print (detection_line i d) wd)"

definition usage :: "world \<Rightarrow> world" where
  "usage wd =
     print (CHR 0x0A # ''Note: Run ipc_yolov4_replica.py first to populate shared memory'')
       (print ''Example: python ipc_reader.py sample.ppm''
          (print ''Usage: python ipc_reader.py <image_path>'' wd))"

text \<open>
  \<open>argv\<close> is \<^verbatim>\<open>sys.argv\<close>, the script name first. The result is the value returned to
  \<^verbatim>\<open>sys.exit\<close>: the exit status of the process.
\<close>

definition main :: "'img cv2 \<Rightarrow> string list \<Rightarrow> world \<Rightarrow> int \<times> world" where
  "main cv argv wd =
     (if length argv \<noteq> 2 then (1, usage wd)
      else
        let image_path = argv ! 1 in
        case path_exists image_path wd of
          (False, wd1) \<Rightarrow> (1, print (''Error: Image not found: '' @ image_path) wd1)
        | (True, wd1) \<Rightarrow>
            (case read_shared_memory wd1 of
               (None, wd2) \<Rightarrow> (1, wd2)
             | (Some detections, wd2) \<Rightarrow>
                 (case render_detections cv image_path detections None
                         (print_detections 0 detections
                            (print (''Read '' @ str_nat (length detections)
                                      @ '' detection(s) from shared memory:'') wd2)) of
                    (r, wd3) \<Rightarrow> (0, wd3))))"

subsection \<open>The segment as its producer writes it\<close>

text \<open>
  The layout of the data model, written the other way round: what a producer stores for a
  \<open>SharedData\<close> value. It is the reference the reader is compared with; the reader
  itself never calls it.
\<close>

definition le_bytes :: "c_int \<Rightarrow> byte list" where
  "le_bytes v = [ucast v, ucast (drop_bit 8 v), ucast (drop_bit 16 v), ucast (drop_bit 24 v)]"

definition encode_Detection :: "Detection \<Rightarrow> byte list" where
  "encode_Detection d =
     le_bytes (c_class_id d) @ le_bytes (c_confidence d) @ le_bytes (c_x d)
       @ le_bytes (c_y d) @ le_bytes (c_w d) @ le_bytes (c_h d)"

definition encode_SharedData :: "SharedData \<Rightarrow> byte list" where
  "encode_SharedData s = le_bytes (count s) @ concat (map encode_Detection (det s))"





subsection \<open>Example inputs\<close>

text \<open>
  Concrete inputs for the examples below: one detection as a structure and one, partly off
  the image, as values, a segment holding the first ten times
  under a given \<open>count\<close>, a file system with the segment and an image file, one with the image file only, and a small
  stand-in for OpenCV in which an image is the bytes it was read from together with the
  marks drawn on it, and an image file with no bytes does not decode.
\<close>

definition example_Detection :: Detection where
  "example_Detection =
     \<lparr> c_class_id = 3, c_confidence = 0x3F5EB852, c_x = 10, c_y = 20, c_w = 30, c_h = 40 \<rparr>"


definition example_segment :: "c_int \<Rightarrow> byte list" where
  "example_segment n = encode_SharedData \<lparr> count = n, det = replicate 10 example_Detection \<rparr>"

definition example_world :: "byte list \<Rightarrow> byte list \<Rightarrow> world" where
  "example_world segment picture =
     \<lparr> files = [''/dev/shm/ipc_yolov4_shm'' \<mapsto> \<lparr>readable = True, content = segment\<rparr>,
                 ''sample.ppm'' \<mapsto> \<lparr>readable = True, content = picture\<rparr>],
       stdout = [],
       io_log = [] \<rparr>"

definition image_only_world :: "byte list \<Rightarrow> world" where
  "image_only_world picture =
     \<lparr> files = [''sample.ppm'' \<mapsto> \<lparr>readable = True, content = picture\<rparr>],
       stdout = [],
       io_log = [] \<rparr>"

definition example_cv :: "(byte list \<times> cv_call list) cv2" where
  "example_cv =
     \<lparr> imread = (\<lambda>fs p. case fs p of
                       None \<Rightarrow> Inr None
                     | Some f \<Rightarrow>
                         if readable f \<and> content f \<noteq> [] then Inr (Some (content f, []))
                         else Inr None),
       draw = (\<lambda>c img. Inr (fst img, snd img @ [c])),
       imwrite = (\<lambda>p img. Inr (Some (fst img @ replicate (length (snd img)) 255))) \<rparr>"


section \<open>Properties\<close>

subsection \<open>The byte layout\<close>

lemma word_of_le_le_bytes: "word_of_le (le_bytes v) = v"
  unfolding le_bytes_def
  apply (rule bit_word_eqI)
  apply (simp add: bit_simps)
  apply (auto simp: not_less)
  subgoal for n
    by (cases "n < 8"; cases "n < 16"; cases "n < 24"; simp add: not_less le_diff_conv)
  done

lemma length_le_bytes: "length (le_bytes v) = 4"
  by (simp add: le_bytes_def)

lemma field_at_le_bytes:
  "length pre = off \<Longrightarrow> field_at (pre @ le_bytes v @ post) off = v"
  by (simp add: field_at_def length_le_bytes word_of_le_le_bytes)

lemma length_encode_Detection: "length (encode_Detection d) = 24"
  by (simp add: encode_Detection_def length_le_bytes)

lemma Detection_at_encode:
  assumes "length pre = off"
  shows "Detection_at (pre @ encode_Detection d @ post) off = d"
proof -
  have 1: "field_at (pre @ encode_Detection d @ post) off = c_class_id d"
    using field_at_le_bytes [of pre off "c_class_id d"] assms
    by (simp add: encode_Detection_def)
  have 2: "field_at (pre @ encode_Detection d @ post) (off + 4) = c_confidence d"
    using field_at_le_bytes [of "pre @ le_bytes (c_class_id d)" "off + 4" "c_confidence d"] assms
    by (simp add: encode_Detection_def length_le_bytes)
  have 3: "field_at (pre @ encode_Detection d @ post) (off + 8) = c_x d"
    using field_at_le_bytes [of "pre @ le_bytes (c_class_id d) @ le_bytes (c_confidence d)"
        "off + 8" "c_x d"] assms
    by (simp add: encode_Detection_def length_le_bytes)
  have 4: "field_at (pre @ encode_Detection d @ post) (off + 12) = c_y d"
    using field_at_le_bytes [of "pre @ le_bytes (c_class_id d) @ le_bytes (c_confidence d)
        @ le_bytes (c_x d)" "off + 12" "c_y d"] assms
    by (simp add: encode_Detection_def length_le_bytes)
  have 5: "field_at (pre @ encode_Detection d @ post) (off + 16) = c_w d"
    using field_at_le_bytes [of "pre @ le_bytes (c_class_id d) @ le_bytes (c_confidence d)
        @ le_bytes (c_x d) @ le_bytes (c_y d)" "off + 16" "c_w d"] assms
    by (simp add: encode_Detection_def length_le_bytes)
  have 6: "field_at (pre @ encode_Detection d @ post) (off + 20) = c_h d"
    using field_at_le_bytes [of "pre @ le_bytes (c_class_id d) @ le_bytes (c_confidence d)
        @ le_bytes (c_x d) @ le_bytes (c_y d) @ le_bytes (c_w d)" "off + 20" "c_h d" post] assms
    by (simp add: encode_Detection_def length_le_bytes)
  show ?thesis
    by (simp add: Detection_at_def 1 2 3 4 5 6)
qed

lemma length_concat_encode:
  "length (concat (map encode_Detection ds)) = 24 * length ds"
  by (induction ds) (simp_all add: length_encode_Detection)

lemma field_at_take:
  "off + 4 \<le> n \<Longrightarrow> field_at (take n buf) off = field_at buf off"
  by (simp add: field_at_def drop_take min_def)

lemma Detection_at_take:
  "off + 24 \<le> n \<Longrightarrow> Detection_at (take n buf) off = Detection_at buf off"
  by (simp add: Detection_at_def field_at_take)

lemma Detection_at_encode_SharedData:
  assumes "i < length (det s)"
  shows "Detection_at (encode_SharedData s @ extra) (4 + i * 24) = det s ! i"
proof -
  let ?ds = "det s"
  have split: "?ds = take i ?ds @ ?ds ! i # drop (Suc i) ?ds"
    using assms by (simp add: id_take_nth_drop)
  have "concat (map encode_Detection ?ds)
        = concat (map encode_Detection (take i ?ds)) @ encode_Detection (?ds ! i)
            @ concat (map encode_Detection (drop (Suc i) ?ds))"
    by (subst split) simp
  then have eq: "encode_SharedData s @ extra
        = (le_bytes (count s) @ concat (map encode_Detection (take i ?ds)))
            @ encode_Detection (?ds ! i)
            @ (concat (map encode_Detection (drop (Suc i) ?ds)) @ extra)"
    by (simp add: encode_SharedData_def)
  have len: "length (le_bytes (count s) @ concat (map encode_Detection (take i ?ds))) = 4 + i * 24"
    using assms by (simp add: length_le_bytes length_concat_encode min_def)
  show ?thesis
    unfolding eq by (rule Detection_at_encode [OF len])
qed

lemma count_encode_SharedData:
  "field_at (encode_SharedData s @ extra) 0 = count s"
  using field_at_le_bytes [of "[]" 0 "count s" "concat (map encode_Detection (det s)) @ extra"]
  by (simp add: encode_SharedData_def)

lemma length_encode_SharedData:
  "length (encode_SharedData s) = 4 + 24 * length (det s)"
  by (simp add: encode_SharedData_def length_le_bytes length_concat_encode)

lemma from_buffer_copy_encode:
  assumes "length (det s) = MAX_BOXES"
  shows "from_buffer_copy (take sizeof_SharedData (encode_SharedData s @ extra)) = Inr s"
proof -
  have len: "length (det s) = 10"
    using assms by (simp add: MAX_BOXES_def)
  have cnt: "field_at (take 244 (encode_SharedData s @ extra)) 0 = count s"
    using field_at_take [of 0 244 "encode_SharedData s @ extra"]
    by (simp del: take_append add: count_encode_SharedData)
  have "map (\<lambda>i. Detection_at (take 244 (encode_SharedData s @ extra)) (4 + i * 24)) [0..<10]
        = map (\<lambda>i. det s ! i) [0..<10]"
  proof (rule map_cong [OF refl])
    fix i assume "i \<in> set [0..<10]"
    then have i: "i < 10" by simp
    then have "4 + i * 24 + 24 \<le> 244" by simp
    then show "Detection_at (take 244 (encode_SharedData s @ extra)) (4 + i * 24) = det s ! i"
      using i len by (simp only: Detection_at_take Detection_at_encode_SharedData)
  qed
  also have "\<dots> = det s"
    using map_nth [of "det s"] len by simp
  finally have dets:
    "map (\<lambda>i. Detection_at (take 244 (encode_SharedData s @ extra)) (4 + i * 24)) [0..<10] = det s" .
  have "length (take 244 (encode_SharedData s @ extra)) = 244"
    using len by (simp add: length_encode_SharedData)
  then show ?thesis
    using cnt dets
    by (simp add: from_buffer_copy_def sizeof_SharedData_def sizeof_Detection_def MAX_BOXES_def)
qed

lemma read_loop_in_range:
  "\<forall>k\<in>set ks. k < MAX_BOXES \<Longrightarrow>
   read_loop shared ks acc = Inr (acc @ map (\<lambda>k. detection_dict (det shared ! k)) ks)"
  by (induction ks arbitrary: acc) (simp_all add: det_item_def)

lemma read_loop_out_of_range:
  "\<exists>k\<in>set ks. \<not> k < MAX_BOXES \<Longrightarrow>
   read_loop shared ks acc = Inl (IndexError ''invalid index'')"
  by (induction ks arbitrary: acc) (auto simp: det_item_def)

lemma map_nth_upt_take:
  "n \<le> length xs \<Longrightarrow> map (\<lambda>k. f (xs ! k)) [0..<n] = map f (take n xs)"
  by (rule nth_equalityI) simp_all


subsection \<open>The world after a call\<close>

lemma stdout_io [simp]: "stdout (io ev wd) = stdout wd"
  and files_io [simp]: "files (io ev wd) = files wd"
  and io_log_io [simp]: "io_log (io ev wd) = io_log wd @ [ev]"
  by (simp_all add: io_def)

lemma stdout_print [simp]: "stdout (print s wd) = stdout wd @ [s]"
  and files_print [simp]: "files (print s wd) = files wd"
  and io_log_print [simp]: "io_log (print s wd) = io_log wd"
  by (simp_all add: print_def)

lemma shm_path_eq: "shm_path = ''/dev/shm/ipc_yolov4_shm''"
  by (simp add: shm_path_def SHM_NAME_def)

lemma sizeof_SharedData_eq: "sizeof_SharedData = 244"
  by (simp add: sizeof_SharedData_def sizeof_Detection_def MAX_BOXES_def)

lemma read_when_absent:
  assumes "files wd shm_path = None"
  shows "read_shared_memory wd =
           (None, print (''Error: Shared memory not found at '' @ shm_path)
                    (io (PathExists shm_path) wd))"
  using assms by (simp add: read_shared_memory_def path_exists_def)

text \<open>What the reader does with a segment that is there, readable and large enough.\<close>

lemma read_shared_memory_present:
  assumes "files wd shm_path = Some f" and "readable f"
    and "sizeof_SharedData \<le> length (content f)"
    and "from_buffer_copy (take sizeof_SharedData (content f)) = Inr shared"
  shows "read_shared_memory wd =
     (case read_loop shared (range_py (sint (count shared))) [] of
        Inl e \<Rightarrow>
          (None, print (''Error reading shared memory: '' @ exn_str e)
                   (io (MmapMap sizeof_SharedData)
                      (io (OsOpen shm_path) (io (PathExists shm_path) wd))))
      | Inr detections \<Rightarrow>
          (Some detections,
           io OsClose (io MmapClose (io (MmapMap sizeof_SharedData)
             (io (OsOpen shm_path) (io (PathExists shm_path) wd))))))"
  using assms
  by (simp add: read_shared_memory_def path_exists_def read_try_def os_open_def mmap_read_def
      split: sum.splits)

lemma from_buffer_copy_count:
  assumes "sizeof_SharedData \<le> length buf"
  shows "\<exists>shared. from_buffer_copy (take sizeof_SharedData buf) = Inr shared
           \<and> count shared = field_at buf 0"
  using assms field_at_take [of 0 sizeof_SharedData buf]
  by (simp add: from_buffer_copy_def sizeof_SharedData_eq)


lemma example_segment_count: "field_at (example_segment n) 0 = n"
  using count_encode_SharedData [of "\<lparr> count = n, det = replicate 10 example_Detection \<rparr>" "[]"]
  by (simp add: example_segment_def)

lemma length_example_segment: "length (example_segment n) = 244"
  by (simp add: example_segment_def length_encode_SharedData)

lemma files_example_world_shm:
  "files (example_world segment picture) shm_path = Some \<lparr>readable = True, content = segment\<rparr>"
  by (simp add: example_world_def shm_path_eq)

lemma files_example_world_image:
  "files (example_world segment picture) ''sample.ppm'' = Some \<lparr>readable = True, content = picture\<rparr>"
  by (simp add: example_world_def)

lemma stdout_example_world: "stdout (example_world segment picture) = []"
  and io_log_example_world: "io_log (example_world segment picture) = []"
  by (simp_all add: example_world_def)

subsection \<open>Reading a segment\<close>

lemma read_shared_memory_encoded:
  assumes "files wd shm_path = Some f" and "readable f"
    and "content f = encode_SharedData shared @ extra"
    and "length (det shared) = MAX_BOXES"
    and "0 \<le> sint (count shared)" and "sint (count shared) \<le> int MAX_BOXES"
  shows "read_shared_memory wd =
           (Some (map detection_dict (take (nat (sint (count shared))) (det shared))),
            io OsClose (io MmapClose (io (MmapMap sizeof_SharedData)
              (io (OsOpen shm_path) (io (PathExists shm_path) wd)))))"
proof -
  let ?n = "nat (sint (count shared))"
  have n: "?n \<le> MAX_BOXES"
    using assms(5,6) by simp
  have size: "sizeof_SharedData \<le> length (content f)"
    using assms(3,4) by (simp add: length_encode_SharedData sizeof_SharedData_eq MAX_BOXES_def)
  have copy: "from_buffer_copy (take sizeof_SharedData (content f)) = Inr shared"
    using from_buffer_copy_encode [OF assms(4), of extra] assms(3) by simp
  have "read_loop shared (range_py (sint (count shared))) []
          = Inr ([] @ map (\<lambda>k. detection_dict (det shared ! k)) [0..<?n])"
    unfolding range_py_def using n by (intro read_loop_in_range) simp
  also have "map (\<lambda>k. detection_dict (det shared ! k)) [0..<?n]
          = map detection_dict (take ?n (det shared))"
    using n assms(4) by (intro map_nth_upt_take) simp
  finally have loop: "read_loop shared (range_py (sint (count shared))) []
          = Inr (map detection_dict (take ?n (det shared)))"
    by simp
  show ?thesis
    using read_shared_memory_present [OF assms(1,2) size copy] loop by simp
qed





text \<open>
  Claim C2. When the count field of a readable, full-size segment is greater than the
  array capacity, nothing clamps it: the loop reaches index 10, the indexing raises
  \<^verbatim>\<open>IndexError\<close>, and \<open>read_shared_memory\<close> prints the error and returns \<open>None\<close>. The
  file system is unchanged, and the calls made are the existence check, the open and the
  mapping.
\<close>

theorem read_shared_memory_count_over_capacity:
  assumes "files wd shm_path = Some f" and "readable f"
    and "sizeof_SharedData \<le> length (content f)"
    and "int MAX_BOXES < sint (field_at (content f) 0)"
  shows "fst (read_shared_memory wd) = None
         \<and> stdout (snd (read_shared_memory wd))
             = stdout wd @ [''Error reading shared memory: invalid index'']
         \<and> io_log (snd (read_shared_memory wd))
             = io_log wd @ [PathExists shm_path, OsOpen shm_path, MmapMap sizeof_SharedData]
         \<and> files (snd (read_shared_memory wd)) = files wd"
proof -
  obtain shared where copy: "from_buffer_copy (take sizeof_SharedData (content f)) = Inr shared"
    and cnt: "count shared = field_at (content f) 0"
    using from_buffer_copy_count [OF assms(3)] by blast
  have "MAX_BOXES \<in> set (range_py (sint (count shared)))"
    using assms(4) cnt by (simp add: range_py_def)
  then have "\<exists>k\<in>set (range_py (sint (count shared))). \<not> k < MAX_BOXES"
    by blast
  then have "read_loop shared (range_py (sint (count shared))) [] = Inl (IndexError ''invalid index'')"
    by (rule read_loop_out_of_range)
  then show ?thesis
    using read_shared_memory_present [OF assms(1,2,3) copy] by simp
qed

theorem read_shared_memory_count_over_capacity_witness:
  "fst (read_shared_memory (example_world (example_segment 11) [])) = None
   \<and> stdout (snd (read_shared_memory (example_world (example_segment 11) [])))
       = [''Error reading shared memory: invalid index'']"
proof -
  have "sizeof_SharedData \<le> length (content \<lparr>readable = True, content = example_segment 11\<rparr>)"
    by (simp add: length_example_segment sizeof_SharedData_eq)
  moreover have "int MAX_BOXES
      < sint (field_at (content \<lparr>readable = True, content = example_segment 11\<rparr>) 0)"
    by (simp add: example_segment_count MAX_BOXES_def)
  ultimately show ?thesis
    using read_shared_memory_count_over_capacity [OF files_example_world_shm, of "example_segment 11" "[]"]
    by (simp add: stdout_example_world)
qed

text \<open>
  Claim C10. When the count field of a readable, full-size segment is negative,
  \<^verbatim>\<open>range(count)\<close> is empty: \<open>read_shared_memory\<close> returns the empty list, not
  \<open>None\<close>, and prints nothing.
\<close>

theorem read_shared_memory_negative_count:
  assumes "files wd shm_path = Some f" and "readable f"
    and "sizeof_SharedData \<le> length (content f)"
    and "sint (field_at (content f) 0) < 0"
  shows "fst (read_shared_memory wd) = Some []
         \<and> stdout (snd (read_shared_memory wd)) = stdout wd"
proof -
  obtain shared where copy: "from_buffer_copy (take sizeof_SharedData (content f)) = Inr shared"
    and cnt: "count shared = field_at (content f) 0"
    using from_buffer_copy_count [OF assms(3)] by blast
  have "read_loop shared (range_py (sint (count shared))) [] = Inr []"
    using assms(4) cnt by (simp add: range_py_def)
  then show ?thesis
    using read_shared_memory_present [OF assms(1,2,3) copy] by simp
qed

theorem read_shared_memory_negative_count_witness:
  "sint (field_at (example_segment (- 1)) 0) < 0
   \<and> fst (read_shared_memory (example_world (example_segment (- 1)) [])) = Some []
   \<and> stdout (snd (read_shared_memory (example_world (example_segment (- 1)) []))) = []"
proof -
  have "sizeof_SharedData \<le> length (content \<lparr>readable = True, content = example_segment (- 1)\<rparr>)"
    by (simp add: length_example_segment sizeof_SharedData_eq)
  moreover have "sint (field_at (content \<lparr>readable = True, content = example_segment (- 1)\<rparr>) 0) < 0"
    by (simp add: example_segment_count)
  ultimately show ?thesis
    using read_shared_memory_negative_count [OF files_example_world_shm, of "example_segment (- 1)" "[]"]
    by (simp add: stdout_example_world example_segment_count)
qed


subsection \<open>The driver\<close>

lemma main_wrong_argc:
  "length argv \<noteq> 2 \<Longrightarrow> main cv argv wd = (1, usage wd)"
  by (simp add: main_def)

lemma main_image_missing:
  "length argv = 2 \<Longrightarrow> files wd (argv ! 1) = None \<Longrightarrow>
   main cv argv wd
     = (1, print (''Error: Image not found: '' @ argv ! 1) (io (PathExists (argv ! 1)) wd))"
  by (simp add: main_def path_exists_def Let_def)

lemma main_read_failed:
  "length argv = 2 \<Longrightarrow> files wd (argv ! 1) = Some f \<Longrightarrow>
   fst (read_shared_memory (io (PathExists (argv ! 1)) wd)) = None \<Longrightarrow>
   main cv argv wd = (1, snd (read_shared_memory (io (PathExists (argv ! 1)) wd)))"
  by (cases "read_shared_memory (io (PathExists (argv ! 1)) wd)")
    (auto simp add: main_def path_exists_def Let_def split: prod.splits option.splits)

text \<open>Once the detections are read, the status is 0 whatever the rendering returns.\<close>

lemma main_read_ok:
  "length argv = 2 \<Longrightarrow> files wd (argv ! 1) = Some f \<Longrightarrow>
   read_shared_memory (io (PathExists (argv ! 1)) wd) = (Some detections, wd2) \<Longrightarrow>
   main cv argv wd
     = (0, snd (render_detections cv (argv ! 1) detections None
                  (print_detections 0 detections
                     (print (''Read '' @ str_nat (length detections)
                               @ '' detection(s) from shared memory:'') wd2))))"
  by (simp add: main_def path_exists_def Let_def split: prod.splits)

lemma files_image_only_world_shm: "files (image_only_world picture) shm_path = None"
  by (simp add: image_only_world_def shm_path_eq)

lemma stdout_image_only_world: "stdout (image_only_world picture) = []"
  and io_log_image_only_world: "io_log (image_only_world picture) = []"
  by (simp_all add: image_only_world_def)

text \<open>
  Claim C3. When there is no file at \<^verbatim>\<open>/dev/shm/ipc_yolov4_shm\<close>,
  \<open>read_shared_memory\<close> returns \<open>None\<close> and prints an error, without opening anything,
  and the process exits with status 1, whatever its arguments are.
\<close>

theorem shared_memory_absent:
  assumes "files wd shm_path = None"
  shows "fst (read_shared_memory wd) = None
         \<and> stdout (snd (read_shared_memory wd))
             = stdout wd @ [''Error: Shared memory not found at /dev/shm/ipc_yolov4_shm'']
         \<and> io_log (snd (read_shared_memory wd)) = io_log wd @ [PathExists shm_path]
         \<and> fst (main cv argv wd) = 1"
proof -
  have read: "fst (read_shared_memory wd') = None" if "files wd' shm_path = None" for wd'
    using that by (simp add: read_when_absent)
  have "fst (main cv argv wd) = 1"
  proof (cases "length argv = 2")
    case False
    then show ?thesis by (simp add: main_wrong_argc)
  next
    case True
    show ?thesis
    proof (cases "files wd (argv ! 1)")
      case None
      with True show ?thesis by (simp add: main_image_missing)
    next
      case (Some f)
      have "fst (read_shared_memory (io (PathExists (argv ! 1)) wd)) = None"
        using assms by (intro read) simp
      with True Some show ?thesis by (simp add: main_read_failed)
    qed
  qed
  then show ?thesis
    using assms by (simp add: read_when_absent shm_path_eq)
qed

theorem shared_memory_absent_witness:
  "files (image_only_world [80, 54]) shm_path = None
   \<and> fst (read_shared_memory (image_only_world [80, 54])) = None
   \<and> stdout (snd (read_shared_memory (image_only_world [80, 54])))
       = [''Error: Shared memory not found at /dev/shm/ipc_yolov4_shm'']
   \<and> fst (main example_cv [''ipc_reader.py'', ''sample.ppm''] (image_only_world [80, 54])) = 1"
  using shared_memory_absent [OF files_image_only_world_shm, of "[80, 54]" example_cv
      "[''ipc_reader.py'', ''sample.ppm'']"]
  by (simp add: files_image_only_world_shm stdout_image_only_world)

text \<open>
  Claim C5. With an argument count other than one (\<^verbatim>\<open>len(sys.argv) != 2\<close>), the program
  prints the usage message and exits with status 1; it makes no call on the file system,
  the shared memory or the image library, and the file system is unchanged.
\<close>

theorem main_usage:
  assumes "length argv \<noteq> 2"
  shows "fst (main cv argv wd) = 1
         \<and> stdout (snd (main cv argv wd))
             = stdout wd @ [''Usage: python ipc_reader.py <image_path>'',
                            ''Example: python ipc_reader.py sample.ppm'',
                            CHR 0x0A # ''Note: Run ipc_yolov4_replica.py first to populate shared memory'']
         \<and> io_log (snd (main cv argv wd)) = io_log wd
         \<and> files (snd (main cv argv wd)) = files wd"
  using assms by (simp add: main_wrong_argc usage_def)

theorem main_usage_witness:
  "fst (main example_cv [''ipc_reader.py''] (example_world (example_segment 1) [80, 54])) = 1
   \<and> io_log (snd (main example_cv [''ipc_reader.py''] (example_world (example_segment 1) [80, 54]))) = []
   \<and> fst (main example_cv [''ipc_reader.py'', ''a.ppm'', ''b.ppm'']
            (example_world (example_segment 1) [80, 54])) = 1
   \<and> io_log (snd (main example_cv [''ipc_reader.py'', ''a.ppm'', ''b.ppm'']
            (example_world (example_segment 1) [80, 54]))) = []"
  using main_usage [of "[''ipc_reader.py'']" example_cv "example_world (example_segment 1) [80, 54]"]
    main_usage [of "[''ipc_reader.py'', ''a.ppm'', ''b.ppm'']" example_cv
      "example_world (example_segment 1) [80, 54]"]
  by (simp add: io_log_example_world)

text \<open>
  Claim C6. With one argument that names no existing file, the program prints an error
  and exits with status 1, and the only call it has made is the existence check of the
  image path: the shared memory is not looked at, opened or mapped.
\<close>

theorem main_image_not_found:
  assumes "length argv = 2" and "files wd (argv ! 1) = None"
  shows "fst (main cv argv wd) = 1
         \<and> stdout (snd (main cv argv wd)) = stdout wd @ [''Error: Image not found: '' @ argv ! 1]
         \<and> io_log (snd (main cv argv wd)) = io_log wd @ [PathExists (argv ! 1)]
         \<and> files (snd (main cv argv wd)) = files wd"
  using assms by (simp add: main_image_missing)

theorem main_image_not_found_witness:
  "fst (main example_cv [''ipc_reader.py'', ''missing.ppm'']
          (example_world (example_segment 1) [80, 54])) = 1
   \<and> io_log (snd (main example_cv [''ipc_reader.py'', ''missing.ppm'']
          (example_world (example_segment 1) [80, 54]))) = [PathExists ''missing.ppm'']"
proof -
  have "files (example_world (example_segment 1) [80, 54])
          ([''ipc_reader.py'', ''missing.ppm''] ! 1) = None"
    by (simp add: example_world_def)
  then show ?thesis
    using main_image_not_found [of "[''ipc_reader.py'', ''missing.ppm'']"
        "example_world (example_segment 1) [80, 54]" example_cv]
    by (simp add: io_log_example_world)
qed


subsection \<open>The derived output path\<close>

lemma rfind_notin: "c \<notin> set s \<Longrightarrow> rfind c s = - 1"
  by (induction s) (auto simp: Let_def)

lemma rfind_less: "rfind c s < int (length s)"
  by (induction s) (simp_all add: Let_def)

lemma rfind_append_notin: "c \<notin> set e \<Longrightarrow> rfind c (b @ e) = rfind c b"
  by (induction b) (auto simp: Let_def rfind_notin)

lemma rfind_append_last: "c \<notin> set e \<Longrightarrow> rfind c (b @ c # e) = int (length b)"
  by (induction b) (auto simp: Let_def rfind_notin)

lemma skip_dots_iff:
  "skip_dots p i d \<longleftrightarrow> (\<exists>k. i \<le> k \<and> k < d \<and> p ! k \<noteq> CHR ''.'')"
proof (induction p i d rule: skip_dots.induct)
  case (1 p i d)
  show ?case
  proof (cases "i < d")
    case False
    then show ?thesis by (subst skip_dots.simps) auto
  next
    case True
    show ?thesis
    proof (cases "p ! i = CHR ''.''")
      case False
      with True show ?thesis by (subst skip_dots.simps) auto
    next
      case dot: True
      have "skip_dots p i d = skip_dots p (i + 1) d"
        using True dot by (subst skip_dots.simps) simp
      also have "\<dots> \<longleftrightarrow> (\<exists>k. i + 1 \<le> k \<and> k < d \<and> p ! k \<noteq> CHR ''.'')"
        using "1.IH" True dot by simp
      also have "\<dots> \<longleftrightarrow> (\<exists>k. i \<le> k \<and> k < d \<and> p ! k \<noteq> CHR ''.'')"
      proof
        assume "\<exists>k. i + 1 \<le> k \<and> k < d \<and> p ! k \<noteq> CHR ''.''"
        then show "\<exists>k. i \<le> k \<and> k < d \<and> p ! k \<noteq> CHR ''.''"
          by (meson add_leD1)
      next
        assume "\<exists>k. i \<le> k \<and> k < d \<and> p ! k \<noteq> CHR ''.''"
        then obtain k where k: "i \<le> k" "k < d" "p ! k \<noteq> CHR ''.''" by blast
        with dot have "k \<noteq> i" by auto
        with k show "\<exists>k. i + 1 \<le> k \<and> k < d \<and> p ! k \<noteq> CHR ''.''"
          by (intro exI [of _ k]) simp
      qed
      finally show ?thesis .
    qed
  qed
qed

lemma splitext_base_ext:
  assumes "CHR ''/'' \<notin> set name" and "\<exists>c\<in>set name. c \<noteq> CHR ''.''"
    and "CHR ''.'' \<notin> set ext" and "CHR ''/'' \<notin> set ext"
  shows "splitext (dir @ name @ ''.'' @ ext) = (dir @ name, ''.'' @ ext)"
proof -
  let ?p = "dir @ name @ ''.'' @ ext"
  have dot: "rfind (CHR ''.'') ?p = int (length (dir @ name))"
    using rfind_append_last [OF assms(3), of "dir @ name"] by simp
  have "CHR ''/'' \<notin> set (name @ ''.'' @ ext)"
    using assms(1,4) by simp
  then have sep: "rfind (CHR ''/'') ?p = rfind (CHR ''/'') dir"
    by (rule rfind_append_notin)
  have sep_less: "rfind (CHR ''/'') dir < int (length dir)"
    by (rule rfind_less)
  obtain j where j: "j < length name" "name ! j \<noteq> CHR ''.''"
    using assms(2) by (auto simp: in_set_conv_nth)
  have "nat (rfind (CHR ''/'') dir + 1) \<le> length dir + j"
    using sep_less by simp
  moreover have "length dir + j < length (dir @ name)"
    using j(1) by simp
  moreover have "?p ! (length dir + j) \<noteq> CHR ''.''"
    using j by (simp add: nth_append)
  ultimately have "skip_dots ?p (nat (rfind (CHR ''/'') dir + 1)) (length (dir @ name))"
    unfolding skip_dots_iff by blast
  moreover have "rfind (CHR ''/'') dir < int (length (dir @ name))"
    using sep_less by simp
  ultimately show ?thesis
    unfolding splitext_def dot sep by (simp add: Let_def nat_int_add)
qed

lemma default_output_path_base_ext:
  assumes "CHR ''/'' \<notin> set name" and "\<exists>c\<in>set name. c \<noteq> CHR ''.''"
    and "CHR ''.'' \<notin> set ext" and "CHR ''/'' \<notin> set ext"
  shows "default_output_path (dir @ name @ ''.'' @ ext) = dir @ name @ ''_detected.'' @ ext"
  using splitext_base_ext [OF assms, of dir] by (simp add: default_output_path_def)


subsection \<open>Rendering\<close>

lemma io_log_cv_imwrite: "io_log (snd (cv_imwrite cv p img wd)) = io_log wd @ [ImWrite p]"
  by (simp add: cv_imwrite_def split: sum.splits option.splits)

lemma render_try_returns_path:
  assumes "render_try cv p detections out wd = (Inr (Some r), wd')"
  shows "r = out \<and> io_log wd' \<noteq> [] \<and> last (io_log wd') = ImWrite out"
proof (cases "cv_imread cv p wd")
  case read: (Pair a wd1)
  show ?thesis
  proof (cases a)
    case (Inl e)
    with read assms show ?thesis by (simp add: render_try_def)
  next
    case (Inr decoded)
    show ?thesis
    proof (cases decoded)
      case None
      with read Inr assms show ?thesis by (simp add: render_try_def)
    next
      case (Some img)
      let ?wd1 = "print (''Rendering '' @ str_nat (length detections) @ '' detection(s)...'') wd1"
      show ?thesis
      proof (cases "draw_loop cv detections img ?wd1")
        case loop: (Pair b wd2)
        show ?thesis
        proof (cases b)
          case (Inl e)
          with read Inr Some loop assms show ?thesis by (simp add: render_try_def)
        next
          case drawn: (Inr img')
          show ?thesis
          proof (cases "cv_imwrite cv out img' wd2")
            case wr: (Pair c wd3)
            have log: "io_log wd3 = io_log wd2 @ [ImWrite out]"
              using io_log_cv_imwrite [of cv out img' wd2] wr by simp
            show ?thesis
            proof (cases c)
              case (Inl e)
              with read Inr Some loop drawn wr assms show ?thesis
                by (simp add: render_try_def)
            next
              case written: (Inr ok)
              with read Inr Some loop drawn wr assms
              have "r = out" and "wd' = print (''Saved to '' @ out) wd3"
                by (auto simp: render_try_def)
              with log show ?thesis by simp
            qed
          qed
        qed
      qed
    qed
  qed
qed

text \<open>
  Claim C7. For an input path \<open>base.ext\<close> (the file name \<open>name\<close> ending \<open>base\<close> has no
  slash and is not made of dots only; \<open>ext\<close> has no dot and no slash), the path used when
  the caller gives none is \<open>base_detected.ext\<close>: whenever \<open>render_detections\<close> returns a
  path, it is this one, and the last call made is the \<open>imwrite\<close> to it.
\<close>

theorem render_default_output_path:
  assumes "CHR ''/'' \<notin> set name" and "\<exists>c\<in>set name. c \<noteq> CHR ''.''"
    and "CHR ''.'' \<notin> set ext" and "CHR ''/'' \<notin> set ext"
    and "render_detections cv (dir @ name @ ''.'' @ ext) detections None wd = (Some r, wd')"
  shows "default_output_path (dir @ name @ ''.'' @ ext) = dir @ name @ ''_detected.'' @ ext
         \<and> r = dir @ name @ ''_detected.'' @ ext
         \<and> io_log wd' \<noteq> []
         \<and> last (io_log wd') = ImWrite (dir @ name @ ''_detected.'' @ ext)"
proof -
  let ?p = "dir @ name @ ''.'' @ ext"
  let ?out = "dir @ name @ ''_detected.'' @ ext"
  have out: "default_output_path ?p = ?out"
    by (rule default_output_path_base_ext [OF assms(1-4)])
  have "render_try cv ?p detections ?out wd = (Inr (Some r), wd')"
  proof (cases "render_try cv ?p detections ?out wd")
    case (Pair a wd1)
    with assms(5) out show ?thesis
      by (cases a) (simp_all add: render_detections_def Let_def)
  qed
  from render_try_returns_path [OF this] out show ?thesis
    by simp
qed

lemma render_try_empty:
  assumes "imread cv (files wd) p = Inr (Some img)" and "imwrite cv out img = Inr (Some bs)"
  shows "render_try cv p [] out wd =
           (Inr (Some out),
            print (''Saved to '' @ out)
              (io (ImWrite out)
                 ((print ''Rendering 0 detection(s)...'' (io (ImRead p) wd))
                    \<lparr>files := (files wd)(out \<mapsto> \<lparr>readable = True, content = bs\<rparr>)\<rparr>)))"
  using assms
  by (simp add: render_try_def cv_imread_def cv_imwrite_def str_nat.simps digit_char_def)

text \<open>
  Claim C8. With no detection, when the image decodes and \<open>imwrite\<close> writes, no drawing
  call is made: the calls are \<open>imread\<close> of the input and \<open>imwrite\<close> of the output, and the
  file written holds the bytes \<open>imwrite\<close> gives for the image exactly as \<open>imread\<close>
  returned it.
\<close>

theorem render_no_detections:
  assumes "imread cv (files wd) p = Inr (Some img)"
    and "out = (case output_path of None \<Rightarrow> default_output_path p | Some q \<Rightarrow> q)"
    and "imwrite cv out img = Inr (Some bs)"
  shows "fst (render_detections cv p [] output_path wd) = Some out
         \<and> files (snd (render_detections cv p [] output_path wd))
             = (files wd)(out \<mapsto> \<lparr>readable = True, content = bs\<rparr>)
         \<and> io_log (snd (render_detections cv p [] output_path wd))
             = io_log wd @ [ImRead p, ImWrite out]
         \<and> stdout (snd (render_detections cv p [] output_path wd))
             = stdout wd @ [''Rendering 0 detection(s)...'', ''Saved to '' @ out]"
  using render_try_empty [OF assms(1,3)] assms(2)
  by (simp add: render_detections_def Let_def)


theorem render_default_output_path_witness:
  "fst (render_detections example_cv ''sample.ppm'' []  None
          (example_world (example_segment 0) [80, 54])) = Some ''sample_detected.ppm''
   \<and> last (io_log (snd (render_detections example_cv ''sample.ppm'' [] None
          (example_world (example_segment 0) [80, 54])))) = ImWrite ''sample_detected.ppm''"
proof -
  let ?wd = "example_world (example_segment 0) [80, 54]"
  let ?run = "render_detections example_cv ''sample.ppm'' [] None ?wd"
  have out: "default_output_path ''sample.ppm'' = ''sample_detected.ppm''"
    using default_output_path_base_ext [of "''sample''" "''ppm''" "[]"] by simp
  have rd: "imread example_cv (files ?wd) ''sample.ppm'' = Inr (Some ([80, 54], []))"
    by (simp add: example_cv_def example_world_def)
  have wr: "imwrite example_cv ''sample_detected.ppm'' ([80, 54], []) = Inr (Some [80, 54])"
    by (simp add: example_cv_def)
  have res: "fst ?run = Some ''sample_detected.ppm''"
    using render_try_empty [OF rd wr] out by (simp add: render_detections_def)
  then have run: "render_detections example_cv ([] @ ''sample'' @ ''.'' @ ''ppm'') [] None ?wd
                    = (Some ''sample_detected.ppm'', snd ?run)"
    by (simp add: prod_eq_iff)
  show ?thesis
    using render_default_output_path [OF _ _ _ _ run] res by simp
qed

theorem render_no_detections_witness:
  "fst (render_detections example_cv ''sample.ppm'' [] None
          (example_world (example_segment 0) [80, 54])) = Some ''sample_detected.ppm''
   \<and> files (snd (render_detections example_cv ''sample.ppm'' [] None
          (example_world (example_segment 0) [80, 54]))) ''sample_detected.ppm''
       = Some \<lparr>readable = True, content = [80, 54]\<rparr>
   \<and> io_log (snd (render_detections example_cv ''sample.ppm'' [] None
          (example_world (example_segment 0) [80, 54])))
       = [ImRead ''sample.ppm'', ImWrite ''sample_detected.ppm'']"
proof -
  let ?wd = "example_world (example_segment 0) [80, 54]"
  have out: "''sample_detected.ppm''
      = (case None of None \<Rightarrow> default_output_path ''sample.ppm'' | Some q \<Rightarrow> q)"
    using default_output_path_base_ext [of "''sample''" "''ppm''" "[]"] by simp
  have rd: "imread example_cv (files ?wd) ''sample.ppm'' = Inr (Some ([80, 54], []))"
    by (simp add: example_cv_def example_world_def)
  have wr: "imwrite example_cv ''sample_detected.ppm'' ([80, 54], []) = Inr (Some [80, 54])"
    by (simp add: example_cv_def)
  show ?thesis
    using render_no_detections [OF rd out wr] by (simp add: io_log_example_world)
qed

lemma label_of_example:
  "label_of \<lparr>class_id = 3, confidence = 0x3F5EB852, box_x = 10, box_y = 20, box_w = 30, box_h = 40\<rparr>
     = ''ID:3 0.87''"
  by (simp add: label_of_def str_int_def fmt_2f_def round_half_even_def str_nat.simps
      digit_char_def Let_def)

lemma draw_loop_example:
  assumes "draw cv (Rectangle (10, 20) (40, 60) (0, 255, 0) 2) img = Inr img1"
    and "draw cv (PutText ''ID:3 0.87'' (10, 15) FONT_HERSHEY_SIMPLEX (6 / 10) (0, 255, 0) 2) img1
           = Inr img2"
  shows "draw_loop cv
           [\<lparr>class_id = 3, confidence = 0x3F5EB852, box_x = 10, box_y = 20, box_w = 30, box_h = 40\<rparr>]
           img wd
         = (Inr img2,
            io (Draw (PutText ''ID:3 0.87'' (10, 15) FONT_HERSHEY_SIMPLEX (6 / 10) (0, 255, 0) 2))
              (io (Draw (Rectangle (10, 20) (40, 60) (0, 255, 0) 2)) wd))"
  using assms by (simp add: cv_draw_def green_def label_of_example)

text \<open>
  Claim C9. For the single detection with class 3, confidence 0.87 (as the
  single-precision float a \<^verbatim>\<open>c_float\<close> holds, pattern \<open>0x3F5EB852\<close>), \<open>x = 10\<close>,
  \<open>y = 20\<close>, \<open>w = 30\<close>, \<open>h = 40\<close>, the drawing calls are a rectangle with corners
  \<open>(10, 20)\<close> and \<open>(40, 60)\<close>, then a text with the label \<^verbatim>\<open>ID:3 0.87\<close> at \<open>(10, 15)\<close>;
  when the library accepts both, the image written is the one they return.
\<close>

theorem render_single_detection:
  assumes "imread cv (files wd) p = Inr (Some img)"
    and "draw cv (Rectangle (10, 20) (40, 60) (0, 255, 0) 2) img = Inr img1"
    and "draw cv (PutText ''ID:3 0.87'' (10, 15) FONT_HERSHEY_SIMPLEX (6 / 10) (0, 255, 0) 2) img1
           = Inr img2"
    and "out = (case output_path of None \<Rightarrow> default_output_path p | Some q \<Rightarrow> q)"
    and "imwrite cv out img2 = Inr (Some bs)"
  shows "fst (render_detections cv p
           [\<lparr>class_id = 3, confidence = 0x3F5EB852, box_x = 10, box_y = 20, box_w = 30, box_h = 40\<rparr>]
           output_path wd) = Some out
       \<and> io_log (snd (render_detections cv p
           [\<lparr>class_id = 3, confidence = 0x3F5EB852, box_x = 10, box_y = 20, box_w = 30, box_h = 40\<rparr>]
           output_path wd))
         = io_log wd @
           [ImRead p,
            Draw (Rectangle (10, 20) (40, 60) (0, 255, 0) 2),
            Draw (PutText ''ID:3 0.87'' (10, 15) FONT_HERSHEY_SIMPLEX (6 / 10) (0, 255, 0) 2),
            ImWrite out]
       \<and> files (snd (render_detections cv p
           [\<lparr>class_id = 3, confidence = 0x3F5EB852, box_x = 10, box_y = 20, box_w = 30, box_h = 40\<rparr>]
           output_path wd))
         = (files wd)(out \<mapsto> \<lparr>readable = True, content = bs\<rparr>)"
  using assms(1,4,5)
  by (simp add: render_detections_def render_try_def cv_imread_def cv_imwrite_def
      draw_loop_example [OF assms(2,3)] Let_def del: draw_loop.simps)


theorem render_single_detection_witness:
  "fst (render_detections example_cv ''sample.ppm''
          [\<lparr>class_id = 3, confidence = 0x3F5EB852, box_x = 10, box_y = 20, box_w = 30, box_h = 40\<rparr>]
          None (example_world (example_segment 1) [80, 54])) = Some ''sample_detected.ppm''
   \<and> io_log (snd (render_detections example_cv ''sample.ppm''
          [\<lparr>class_id = 3, confidence = 0x3F5EB852, box_x = 10, box_y = 20, box_w = 30, box_h = 40\<rparr>]
          None (example_world (example_segment 1) [80, 54])))
       = [ImRead ''sample.ppm'',
          Draw (Rectangle (10, 20) (40, 60) (0, 255, 0) 2),
          Draw (PutText ''ID:3 0.87'' (10, 15) FONT_HERSHEY_SIMPLEX (6 / 10) (0, 255, 0) 2),
          ImWrite ''sample_detected.ppm'']
   \<and> files (snd (render_detections example_cv ''sample.ppm''
          [\<lparr>class_id = 3, confidence = 0x3F5EB852, box_x = 10, box_y = 20, box_w = 30, box_h = 40\<rparr>]
          None (example_world (example_segment 1) [80, 54]))) ''sample_detected.ppm''
       = Some \<lparr>readable = True, content = [80, 54, 255, 255]\<rparr>"
proof -
  let ?wd = "example_world (example_segment 1) [80, 54]"
  let ?rect = "Rectangle (10, 20) (40, 60) (0, 255, 0) 2"
  let ?text = "PutText ''ID:3 0.87'' (10, 15) FONT_HERSHEY_SIMPLEX (6 / 10) (0, 255, 0) 2"
  have out: "''sample_detected.ppm''
      = (case None of None \<Rightarrow> default_output_path ''sample.ppm'' | Some q \<Rightarrow> q)"
    using default_output_path_base_ext [of "''sample''" "''ppm''" "[]"] by simp
  have rd: "imread example_cv (files ?wd) ''sample.ppm'' = Inr (Some ([80, 54], []))"
    by (simp add: example_cv_def example_world_def)
  have d1: "draw example_cv ?rect ([80, 54], []) = Inr ([80, 54], [?rect])"
    by (simp add: example_cv_def)
  have d2: "draw example_cv ?text ([80, 54], [?rect]) = Inr ([80, 54], [?rect, ?text])"
    by (simp add: example_cv_def)
  have wr: "imwrite example_cv ''sample_detected.ppm'' ([80, 54], [?rect, ?text])
              = Inr (Some [80, 54, 255, 255])"
    by (simp add: example_cv_def numeral_2_eq_2)
  show ?thesis
    using render_single_detection [OF rd d1 d2 out wr] by (simp add: io_log_example_world)
qed

subsection \<open>The exit status after a rendering failure\<close>

lemma render_detections_undecodable:
  assumes "imread cv (files wd) p = Inr None"
  shows "render_detections cv p detections output_path wd
           = (None, print (''Failed to load image: '' @ p) (io (ImRead p) wd))"
  using assms by (simp add: render_detections_def render_try_def cv_imread_def Let_def)

lemma render_empty_unwritten:
  assumes "imread cv (files wd) p = Inr (Some img)" and "imwrite cv out img = Inr None"
  shows "render_detections cv p [] (Some out) wd =
           (Some out,
            print (''Saved to '' @ out)
              (io (ImWrite out) (print ''Rendering 0 detection(s)...'' (io (ImRead p) wd))))"
  using assms
  by (simp add: render_detections_def render_try_def cv_imread_def cv_imwrite_def
      str_nat.simps digit_char_def)

lemma render_detections_default:
  "render_detections cv p detections None wd
     = render_detections cv p detections (Some (default_output_path p)) wd"
  by (simp add: render_detections_def)

lemma read_example_world:
  assumes "0 \<le> sint n" and "sint n \<le> 10" and "files wd = files (example_world (example_segment n) picture)"
  shows "read_shared_memory wd =
           (Some (replicate (nat (sint n)) (detection_dict example_Detection)),
            io OsClose (io MmapClose (io (MmapMap sizeof_SharedData)
              (io (OsOpen shm_path) (io (PathExists shm_path) wd)))))"
proof -
  let ?s = "\<lparr> count = n, det = replicate 10 example_Detection \<rparr>"
  have f: "files wd shm_path = Some \<lparr>readable = True, content = example_segment n\<rparr>"
    using assms(3) by (simp add: files_example_world_shm)
  have "read_shared_memory wd =
           (Some (map detection_dict (take (nat (sint (count ?s))) (det ?s))),
            io OsClose (io MmapClose (io (MmapMap sizeof_SharedData)
              (io (OsOpen shm_path) (io (PathExists shm_path) wd)))))"
    using assms(1,2) by (intro read_shared_memory_encoded [OF f, of _ "[]"])
      (simp_all add: example_segment_def MAX_BOXES_def)
  then show ?thesis
    using assms(2) by (simp add: map_replicate)
qed

lemma detection_line_example:
  "detection_line 0 (detection_dict example_Detection)
     = ''  [0] class_id=3 conf=0.87 box=(10,20,30,40)''"
  by (simp add: detection_line_def detection_dict_def example_Detection_def str_int_def
      float_of_c_float_def is_signalling_nan_def
      fmt_2f_def round_half_even_def str_nat.simps digit_char_def Let_def)

text \<open>
  Claim C4, evaluated on two runs with a well-formed segment and an image file that
  exists. In the first the image file does not decode: the failure is printed and no file
  is written, but the exit status is 0. In the second \<open>imwrite\<close> returns \<^verbatim>\<open>False\<close>:
  no file is written, \<^verbatim>\<open>Saved to\<close> is printed all the same, and the exit status is 0.
\<close>

theorem main_status_after_render_failure:
  "fst (main example_cv [''ipc_reader.py'', ''sample.ppm''] (example_world (example_segment 1) [])) = 0
   \<and> stdout (snd (main example_cv [''ipc_reader.py'', ''sample.ppm'']
                     (example_world (example_segment 1) [])))
       = [''Read 1 detection(s) from shared memory:'',
          ''  [0] class_id=3 conf=0.87 box=(10,20,30,40)'',
          ''Failed to load image: sample.ppm'']
   \<and> files (snd (main example_cv [''ipc_reader.py'', ''sample.ppm'']
                    (example_world (example_segment 1) [])))
       = files (example_world (example_segment 1) [])
   \<and> fst (main (example_cv\<lparr>imwrite := \<lambda>p img. Inr None\<rparr>) [''ipc_reader.py'', ''sample.ppm'']
            (example_world (example_segment 0) [80, 54])) = 0
   \<and> stdout (snd (main (example_cv\<lparr>imwrite := \<lambda>p img. Inr None\<rparr>)
                     [''ipc_reader.py'', ''sample.ppm''] (example_world (example_segment 0) [80, 54])))
       = [''Read 0 detection(s) from shared memory:'',
          ''Rendering 0 detection(s)...'',
          ''Saved to sample_detected.ppm'']
   \<and> files (snd (main (example_cv\<lparr>imwrite := \<lambda>p img. Inr None\<rparr>)
                    [''ipc_reader.py'', ''sample.ppm''] (example_world (example_segment 0) [80, 54])))
       = files (example_world (example_segment 0) [80, 54])"
proof -
  let ?argv = "[''ipc_reader.py'', ''sample.ppm'']"
  let ?wd1 = "example_world (example_segment 1) []"
  let ?wd0 = "example_world (example_segment 0) [80, 54]"
  let ?cv = "example_cv\<lparr>imwrite := \<lambda>p img. Inr None\<rparr>"
  have out: "default_output_path ''sample.ppm'' = ''sample_detected.ppm''"
    using default_output_path_base_ext [of "''sample''" "''ppm''" "[]"] by simp
  have read1: "read_shared_memory (io (PathExists (?argv ! 1)) ?wd1) =
      (Some [detection_dict example_Detection],
       io OsClose (io MmapClose (io (MmapMap sizeof_SharedData)
         (io (OsOpen shm_path) (io (PathExists shm_path) (io (PathExists (?argv ! 1)) ?wd1))))))"
    using read_example_world [of 1 "io (PathExists (?argv ! 1)) ?wd1" "[]"] by simp
  have read0: "read_shared_memory (io (PathExists (?argv ! 1)) ?wd0) =
      (Some [],
       io OsClose (io MmapClose (io (MmapMap sizeof_SharedData)
         (io (OsOpen shm_path) (io (PathExists shm_path) (io (PathExists (?argv ! 1)) ?wd0))))))"
    using read_example_world [of 0 "io (PathExists (?argv ! 1)) ?wd0" "[80, 54]"] by simp
  have img1: "files ?wd1 (?argv ! 1) = Some \<lparr>readable = True, content = []\<rparr>"
    by (simp add: example_world_def)
  have img0: "files ?wd0 (?argv ! 1) = Some \<lparr>readable = True, content = [80, 54]\<rparr>"
    by (simp add: example_world_def)
  have undec: "imread example_cv (files ?wd1) ''sample.ppm'' = Inr None"
    by (simp add: example_cv_def example_world_def)
  have dec: "imread ?cv (files ?wd0) ''sample.ppm'' = Inr (Some ([80, 54], []))"
    by (simp add: example_cv_def example_world_def)
  have unwritten: "imwrite ?cv ''sample_detected.ppm'' ([80, 54], []) = Inr None"
    by simp
  have m1: "main example_cv ?argv ?wd1 = (0, snd (render_detections example_cv (?argv ! 1)
      [detection_dict example_Detection] None
      (print_detections 0 [detection_dict example_Detection]
        (print (''Read '' @ str_nat (length [detection_dict example_Detection])
                  @ '' detection(s) from shared memory:'')
          (io OsClose (io MmapClose (io (MmapMap sizeof_SharedData)
            (io (OsOpen shm_path) (io (PathExists shm_path) (io (PathExists (?argv ! 1)) ?wd1))))))))))"
    by (rule main_read_ok [OF _ img1 read1]) simp
  have m0: "main ?cv ?argv ?wd0 = (0, snd (render_detections ?cv (?argv ! 1) [] None
      (print_detections 0 []
        (print (''Read '' @ str_nat (length ([] :: detection list))
                  @ '' detection(s) from shared memory:'')
          (io OsClose (io MmapClose (io (MmapMap sizeof_SharedData)
            (io (OsOpen shm_path) (io (PathExists shm_path) (io (PathExists (?argv ! 1)) ?wd0))))))))))"
    by (rule main_read_ok [OF _ img0 read0]) simp
  have r1: "fst (main example_cv ?argv ?wd1) = 0
      \<and> stdout (snd (main example_cv ?argv ?wd1))
          = [''Read 1 detection(s) from shared memory:'',
             ''  [0] class_id=3 conf=0.87 box=(10,20,30,40)'',
             ''Failed to load image: sample.ppm'']
      \<and> files (snd (main example_cv ?argv ?wd1)) = files ?wd1"
    unfolding m1 using undec
    by (simp add: render_detections_undecodable detection_line_example stdout_example_world
        str_nat.simps digit_char_def)
  have r0: "fst (main ?cv ?argv ?wd0) = 0
      \<and> stdout (snd (main ?cv ?argv ?wd0))
          = [''Read 0 detection(s) from shared memory:'',
             ''Rendering 0 detection(s)...'',
             ''Saved to sample_detected.ppm'']
      \<and> files (snd (main ?cv ?argv ?wd0)) = files ?wd0"
    unfolding m0 using dec unwritten
    by (simp add: render_detections_default out render_empty_unwritten
        stdout_example_world str_nat.simps digit_char_def)
  from r1 r0 show ?thesis by simp
qed

end
